theory Spec2Isabelle
  imports Main
begin

section \<open>Aptix API: the agent endpoints\<close>

text \<open>
  A shallow embedding of the two agent routes of the server,
  \<^verbatim>\<open>GET /api/agent/:name\<close> and \<^verbatim>\<open>POST /api/agent/:name/interact\<close>.
  What the handlers reach outside themselves (the environment variables, the Firestore
  client, the OpenAI client and the clock) is one \<open>world\<close> value; a handler returns the
  HTTP response together with the trace of what it did, in program order. A handler
  is what runs once the middleware in front of it (headers, rate limit, body parser) has
  passed the request on.

  Strings are JavaScript strings and \<open>length\<close> is their \<^verbatim>\<open>.length\<close>, one character
  for one code unit. A code unit has more values than a \<open>char\<close>; the handlers only
  compare, measure and concatenate strings, so nothing here depends on how many values a
  character has.
\<close>

subsection \<open>Values\<close>

text \<open>
  The values of a parsed JSON body and of a Firestore document. A number is kept as the
  text JavaScript prints for it (\<^verbatim>\<open>String(n)\<close>), which is all the handlers ever do
  with one besides testing its truthiness.
\<close>

datatype json =
    JNull
  | JBool bool
  | JNum string
  | JStr string
  | JArr "json list"
  | JObj "(string \<times> json) list"

type_synonym object = "(string \<times> json) list"

text \<open>
  \<^verbatim>\<open>req.body\<close> after \<^verbatim>\<open>express.json()\<close>: the strict parser admits only an object or an
  array at the top, and leaves \<^verbatim>\<open>{}\<close> when there was nothing to parse. The entries of an
  object are listed in the order of \<^verbatim>\<open>Object.keys\<close>.
\<close>

datatype request_body = Object object | Array "json list"

text \<open>A thrown \<^verbatim>\<open>Error\<close>: the handlers read its \<^verbatim>\<open>message\<close> and its \<^verbatim>\<open>stack\<close>.\<close>

record fault =
  fault_message :: string
  stack :: string

text \<open>JavaScript truthiness of a property read; \<open>None\<close> is \<^verbatim>\<open>undefined\<close>.\<close>

fun truthy :: "json option \<Rightarrow> bool" where
  "truthy None = False"
| "truthy (Some JNull) = False"
| "truthy (Some (JBool b)) = b"
| "truthy (Some (JNum n)) = (n \<noteq> ''0'' \<and> n \<noteq> ''NaN'')"
| "truthy (Some (JStr s)) = (s \<noteq> [])"
| "truthy (Some (JArr xs)) = True"
| "truthy (Some (JObj kvs)) = True"

text \<open>\<^verbatim>\<open>Array.prototype.join\<close> on the texts of the elements.\<close>

fun join :: "string \<Rightarrow> string list \<Rightarrow> string" where
  "join sep [] = []"
| "join sep [x] = x"
| "join sep (x # y # ys) = x @ sep @ join sep (y # ys)"

text \<open>
  \<^verbatim>\<open>String(v)\<close>, what a template literal does to an interpolated value: an array is its
  elements joined by commas, with \<^verbatim>\<open>null\<close> elements left empty; a plain object is
  \<^verbatim>\<open>[object Object]\<close>.
\<close>

fun to_string :: "json \<Rightarrow> string" where
  "to_string JNull = ''null''"
| "to_string (JBool b) = (if b then ''true'' else ''false'')"
| "to_string (JNum n) = n"
| "to_string (JStr s) = s"
| "to_string (JArr xs) = join '','' (map (\<lambda>x. if x = JNull then [] else to_string x) xs)"
| "to_string (JObj kvs) = ''[object Object]''"

text \<open>\<^verbatim>\<open>${v || fallback}\<close> with a string fallback.\<close>

fun or_text :: "json option \<Rightarrow> string \<Rightarrow> string" where
  "or_text None fallback = fallback"
| "or_text (Some v) fallback = (if truthy (Some v) then to_string v else fallback)"

text \<open>\<^verbatim>\<open>s || fallback\<close> where \<open>s\<close> is a string or \<^verbatim>\<open>undefined\<close>/\<^verbatim>\<open>null\<close>.\<close>

fun or_string :: "string option \<Rightarrow> string \<Rightarrow> string" where
  "or_string None fallback = fallback"
| "or_string (Some s) fallback = (if s = [] then fallback else s)"

subsection \<open>The validation schema\<close>

text \<open>
  \<^verbatim>\<open>Joi.object({ message: Joi.string().required().min(1).max(1000) })\<close>, validated with
  Joi's default preferences: the first error ends the validation, the schema's keys are
  checked before unknown keys are looked for, unknown keys are not allowed, and a string
  is never converted from another type.
\<close>

datatype string_rule = Min nat | Max nat

definition quoted :: "string \<Rightarrow> string" where
  "quoted label = [CHR 0x22] @ label @ [CHR 0x22]"

text \<open>A limit as Joi prints it in a message: in decimal.\<close>

fun nat_digits :: "nat \<Rightarrow> string" where
  "nat_digits n =
     (if n < 10 then [char_of (48 + n)] else nat_digits (n div 10) @ [char_of (48 + n mod 10)])"

declare nat_digits.simps [simp del]

fun rule_error :: "string \<Rightarrow> string_rule \<Rightarrow> string \<Rightarrow> string option" where
  "rule_error label (Min limit) s =
     (if limit \<le> length s then None
      else Some (quoted label @ '' length must be at least '' @ nat_digits limit
                 @ '' characters long''))"
| "rule_error label (Max limit) s =
     (if length s \<le> limit then None
      else Some (quoted label @ '' length must be less than or equal to '' @ nat_digits limit
                 @ '' characters long''))"

fun first_rule_error :: "string \<Rightarrow> string_rule list \<Rightarrow> string \<Rightarrow> string option" where
  "first_rule_error label [] s = None"
| "first_rule_error label (r # rs) s =
     (case rule_error label r s of Some e \<Rightarrow> Some e | None \<Rightarrow> first_rule_error label rs s)"

text \<open>\<^verbatim>\<open>Joi.string().required()\<close> with its rules, on the value read under \<open>label\<close>.\<close>

fun string_required :: "string \<Rightarrow> string_rule list \<Rightarrow> json option \<Rightarrow> string + string" where
  "string_required label rules None = Inl (quoted label @ '' is required'')"
| "string_required label rules (Some (JStr s)) =
     (if s = [] then Inl (quoted label @ '' is not allowed to be empty'')
      else case first_rule_error label rules s of Some e \<Rightarrow> Inl e | None \<Rightarrow> Inr s)"
| "string_required label rules (Some v) = Inl (quoted label @ '' must be a string'')"

text \<open>
  The validated value, \<^verbatim>\<open>{ message }\<close>. \<open>interactSchema b\<close> is
  \<^verbatim>\<open>interactSchema.validate(b)\<close>: \<open>Inl\<close> carries \<^verbatim>\<open>error.message\<close>, \<open>Inr\<close> the value.
\<close>

record interaction =
  message :: string

definition interactSchema :: "request_body \<Rightarrow> string + interaction" where
  "interactSchema b =
     (case b of
        Array xs \<Rightarrow> Inl (quoted ''value'' @ '' must be of type object'')
      | Object kvs \<Rightarrow>
          (case string_required ''message'' [Min 1, Max 1000] (map_of kvs ''message'') of
             Inl e \<Rightarrow> Inl e
           | Inr s \<Rightarrow>
               (case filter (\<lambda>k. k \<noteq> ''message'') (map fst kvs) of
                  k # ks \<Rightarrow> Inl (quoted k @ '' is not allowed'')
                | [] \<Rightarrow> Inr \<lparr>message = s\<rparr>)))"

subsection \<open>Collaborators and effects\<close>

text \<open>The argument of \<^verbatim>\<open>openai.chat.completions.create\<close>.\<close>

record prompt_message =
  role :: string
  content :: string

record completion_request =
  model :: string
  messages :: "prompt_message list"
  max_tokens :: nat
  temperature :: string

text \<open>
  Its result, as far as the handler reads it: \<^verbatim>\<open>choices[0]?.message?.content\<close>, where
  \<^verbatim>\<open>choices\<close> is an array, \<^verbatim>\<open>message\<close> may be absent and \<^verbatim>\<open>content\<close> is a string or
  \<^verbatim>\<open>null\<close>.
\<close>

datatype completion_message = CompletionMessage (message_content: "string option")

datatype choice = Choice (choice_message: "completion_message option")

record completion =
  choices :: "choice list"

text \<open>The record handed to \<^verbatim>\<open>db.collection('analytics').add\<close>.\<close>

datatype field_value = ServerTimestamp

record analytics_record =
  agent :: string
  timestamp :: field_value
  messageLength :: nat
  responseLength :: nat
  type :: string

text \<open>
  Everything outside the handlers. \<open>store_get c k\<close> is
  \<^verbatim>\<open>db.collection(c).doc(k).get()\<close>: it throws, or gives a snapshot that does not exist
  (\<open>None\<close>) or holds the document's data. \<open>store_add c r\<close> is \<^verbatim>\<open>db.collection(c).add(r)\<close>,
  \<open>create\<close> the completion call, \<open>now\<close> the text of \<^verbatim>\<open>new Date().toISOString()\<close> and
  \<open>env\<close> is \<^verbatim>\<open>process.env\<close>.
\<close>

record world =
  env :: "string \<rightharpoonup> string"
  store_get :: "string \<Rightarrow> string \<Rightarrow> fault + object option"
  create :: "completion_request \<Rightarrow> fault + completion"
  store_add :: "string \<Rightarrow> analytics_record \<Rightarrow> fault + unit"
  now :: string

datatype level = Info | Warn | Error

text \<open>
  What a handler does besides answering, in program order. \<open>StoreAdd c r ok\<close> is a call
  of \<^verbatim>\<open>add\<close>; the record is written when \<open>ok\<close>.
\<close>

datatype event =
    Logged level string object
  | StoreGet string string
  | ProviderCall completion_request
  | StoreAdd string analytics_record bool

record response =
  status :: nat
  body :: json



definition store_adds :: "event list \<Rightarrow> (string \<times> analytics_record) list" where
  "store_adds tr = concat (map (\<lambda>e. case e of StoreAdd c r ok \<Rightarrow> [(c, r)] | _ \<Rightarrow> []) tr)"

definition records_written :: "event list \<Rightarrow> (string \<times> analytics_record) list" where
  "records_written tr =
     concat (map (\<lambda>e. case e of StoreAdd c r ok \<Rightarrow> (if ok then [(c, r)] else []) | _ \<Rightarrow> []) tr)"

definition logged :: "event list \<Rightarrow> (level \<times> string) list" where
  "logged tr = concat (map (\<lambda>e. case e of Logged l s meta \<Rightarrow> [(l, s)] | _ \<Rightarrow> []) tr)"

subsection \<open>Response envelopes\<close>

definition error_body :: "string \<Rightarrow> string \<Rightarrow> json" where
  "error_body e m = JObj [(''error'', JStr e), (''message'', JStr m)]"

definition not_found :: "string \<Rightarrow> response" where
  "not_found name =
     \<lparr>status = 404,
      body = error_body ''Agent not found''
               (''The agent '' @ [CHR 0x27] @ name @ [CHR 0x27]
                @ '' does not exist in the database'')\<rparr>"

subsection \<open>The metadata route\<close>

definition get_agent :: "world \<Rightarrow> string \<Rightarrow> response \<times> event list" where
  "get_agent w name =
     (case store_get w ''agents'' name of
        Inl error \<Rightarrow>
          (\<lparr>status = 500,
            body = error_body ''Internal server error''
                     ''An unexpected error occurred while retrieving agent details''\<rparr>,
           [StoreGet ''agents'' name,
            Logged Error (''Error fetching agent details: '' @ fault_message error)
              [(''agent'', JStr name), (''stack'', JStr (stack error))]])
      | Inr None \<Rightarrow>
          (not_found name,
           [StoreGet ''agents'' name, Logged Warn (''Agent not found: '' @ name) []])
      | Inr (Some agentDetails) \<Rightarrow>
          (\<lparr>status = 200, body = JObj agentDetails\<rparr>,
           [StoreGet ''agents'' name,
            Logged Info (''Successfully retrieved agent: '' @ name) []]))"

subsection \<open>The interaction route\<close>

text \<open>
  The template literal of the system prompt. Its fixed tail runs from the line break
  after the description to the closing backquote, with the indentation of the source.
\<close>

definition instructions :: string where
  "instructions =
     [CHR 0x0A] @ ''    '' @ [CHR 0x0A]
     @ ''    When responding, always maintain your character and consider your knowledge about the Solana blockchain environment.''
     @ [CHR 0x0A]
     @ ''    Your answers should be concise, helpful, and accurate. If you don't know something, admit it rather than making up information.''
     @ [CHR 0x0A] @ ''    ''"

definition systemPrompt :: "string \<Rightarrow> object \<Rightarrow> string" where
  "systemPrompt name agentDetails =
     ''You are '' @ name @ '', a helpful AI agent with the following personality: ''
     @ or_text (map_of agentDetails ''personality'') ''neutral and general.''
     @ '' '' @ or_text (map_of agentDetails ''description'') []
     @ instructions"

definition completion_request :: "world \<Rightarrow> string \<Rightarrow> object \<Rightarrow> string \<Rightarrow> completion_request" where
  "completion_request w name agentDetails msg =
     \<lparr>model = or_string (env w ''OPENAI_MODEL'') ''gpt-3.5-turbo'',
      messages = [\<lparr>role = ''system'', content = systemPrompt name agentDetails\<rparr>,
                  \<lparr>role = ''user'', content = msg\<rparr>],
      max_tokens = 500,
      temperature = ''0.7''\<rparr>"

definition agentReply :: "completion \<Rightarrow> string" where
  "agentReply openAIResponse =
     or_string
       (case choices openAIResponse of
          [] \<Rightarrow> None
        | c # cs \<Rightarrow> (case choice_message c of None \<Rightarrow> None | Some m \<Rightarrow> message_content m))
       ''I'm sorry, I couldn't process your request at this time.''"

definition analytics_of :: "string \<Rightarrow> string \<Rightarrow> string \<Rightarrow> analytics_record" where
  "analytics_of name msg reply =
     \<lparr>agent = name, timestamp = ServerTimestamp, messageLength = length msg,
      responseLength = length reply, type = ''interaction''\<rparr>"

definition interaction_failed :: "string \<Rightarrow> fault \<Rightarrow> response \<times> event list" where
  "interaction_failed name error =
     (\<lparr>status = 500,
       body = error_body ''Internal server error''
                ''An unexpected error occurred during agent interaction''\<rparr>,
      [Logged Error (''Error in agent interaction: '' @ fault_message error)
         [(''agent'', JStr name), (''stack'', JStr (stack error))]])"

definition interact :: "world \<Rightarrow> string \<Rightarrow> request_body \<Rightarrow> response \<times> event list" where
  "interact w name b =
     (case interactSchema b of
        Inl error \<Rightarrow>
          (\<lparr>status = 400, body = error_body ''Validation error'' error\<rparr>,
           [Logged Warn (''Validation error for agent interaction: '' @ error) []])
      | Inr v \<Rightarrow>
          (case store_get w ''agents'' name of
             Inl error \<Rightarrow>
               (fst (interaction_failed name error),
                StoreGet ''agents'' name # snd (interaction_failed name error))
           | Inr None \<Rightarrow>
               (not_found name,
                [StoreGet ''agents'' name,
                 Logged Warn (''Agent not found for interaction: '' @ name) []])
           | Inr (Some agentDetails) \<Rightarrow>
               (let request = completion_request w name agentDetails (message v);
                    started = [StoreGet ''agents'' name,
                               Logged Info (''Processing interaction with agent: '' @ name) [],
                               ProviderCall request]
                in case create w request of
                     Inl error \<Rightarrow>
                       (fst (interaction_failed name error),
                        started @ snd (interaction_failed name error))
                   | Inr openAIResponse \<Rightarrow>
                       (let reply = agentReply openAIResponse;
                            record = analytics_of name (message v) reply
                        in (\<lparr>status = 200,
                             body = JObj [(''agent'', JStr name), (''reply'', JStr reply),
                                          (''timestamp'', JStr (now w))]\<rparr>,
                            started
                            @ [Logged Info (''Agent interaction complete: '' @ name) []]
                            @ (case store_add w ''analytics'' record of
                                 Inl analyticsError \<Rightarrow>
                                   [StoreAdd ''analytics'' record False,
                                    Logged Error (''Failed to record analytics: ''
                                                  @ fault_message analyticsError) []]
                               | Inr u \<Rightarrow> [StoreAdd ''analytics'' record True]))))))"

subsection \<open>Example worlds\<close>

text \<open>
  A store holding the agent \<^verbatim>\<open>Aura\<close> and nothing else, a provider that answers, and
  variants in which one collaborator throws, the provider returns no choice, or the
  environment sets more variables.
\<close>

definition aura_details :: object where
  "aura_details = [(''personality'', JStr ''Helpful and concise market analyst''),
                   (''description'', JStr [])]"

definition example_completion :: completion where
  "example_completion =
     \<lparr>choices = [Choice (Some (CompletionMessage (Some ''I don't have live market data.'')))]\<rparr>"

definition example_world :: world where
  "example_world =
     \<lparr>env = Map.empty,
      store_get = (\<lambda>c k. if c = ''agents'' \<and> k = ''Aura'' then Inr (Some aura_details)
                          else Inr None),
      create = (\<lambda>request. Inr example_completion),
      store_add = (\<lambda>c r. Inr ()),
      now = ''2025-01-01T00:00:00.000Z''\<rparr>"

definition unavailable :: fault where
  "unavailable = \<lparr>fault_message = ''UNAVAILABLE'', stack = ''Error: UNAVAILABLE''\<rparr>"

definition analytics_down :: world where
  "analytics_down = example_world\<lparr>store_add := \<lambda>c r. Inl unavailable\<rparr>"

definition provider_down :: world where
  "provider_down = example_world\<lparr>create := \<lambda>request. Inl unavailable\<rparr>"

definition silent_provider :: world where
  "silent_provider = example_world\<lparr>create := \<lambda>request. Inr \<lparr>choices = []\<rparr>\<rparr>"

definition tuned_world :: world where
  "tuned_world =
     example_world\<lparr>env := [''OPENAI_MODEL'' \<mapsto> ''gpt-4o'', ''OPENAI_MAX_TOKENS'' \<mapsto> ''100'',
                          ''OPENAI_TEMPERATURE'' \<mapsto> ''0'']\<rparr>"


section \<open>Properties\<close>

subsection \<open>Shared facts\<close>

lemma valid_message:
  "1 \<le> length m \<Longrightarrow> length m \<le> 1000 \<Longrightarrow>
   interactSchema (Object [(''message'', JStr m)]) = Inr \<lparr>message = m\<rparr>"
  by (auto simp: interactSchema_def)


lemma completed:
  assumes "1 \<le> length m" and "length m \<le> 1000"
    and "store_get w ''agents'' name = Inr (Some d)"
    and "create w (completion_request w name d m) = Inr r"
  shows "fst (interact w name (Object [(''message'', JStr m)]))
           = \<lparr>status = 200,
              body = JObj [(''agent'', JStr name), (''reply'', JStr (agentReply r)),
                           (''timestamp'', JStr (now w))]\<rparr>"
  using assms by (simp add: interact_def valid_message Let_def)

lemma or_string_nonempty: "fallback \<noteq> [] \<Longrightarrow> or_string v fallback \<noteq> []"
  by (cases v) auto

lemma or_string_cases:
  "or_string v fallback = (case v of Some (c # cs) \<Rightarrow> c # cs | _ \<Rightarrow> fallback)"
  by (cases v) (auto split: list.splits)

lemma agentReply_nonempty: "agentReply r \<noteq> []"
  by (simp add: agentReply_def or_string_nonempty)

lemma no_choice_reply:
  "agentReply \<lparr>choices = []\<rparr> = ''I'm sorry, I couldn't process your request at this time.''"
  by (simp add: agentReply_def)

subsection \<open>Analytics failures stay out of the response\<close>

text \<open>
  C1. A valid message for an agent that exists, a completion call that returns and an
  analytics write that throws: the response is the 200 reply envelope, it is the response
  of the world that differs only in that the analytics write succeeds, and after the
  completion call the handler only logs, attempts the write and logs its failure.
\<close>

theorem analytics_failure_isolated:
  assumes "1 \<le> length m" and "length m \<le> 1000"
    and "store_get w ''agents'' name = Inr (Some d)"
    and "create w (completion_request w name d m) = Inr r"
    and "store_add w ''analytics'' (analytics_of name m (agentReply r)) = Inl e"
  shows "fst (interact w name (Object [(''message'', JStr m)]))
           = \<lparr>status = 200,
              body = JObj [(''agent'', JStr name), (''reply'', JStr (agentReply r)),
                           (''timestamp'', JStr (now w))]\<rparr>
         \<and> fst (interact w name (Object [(''message'', JStr m)]))
           = fst (interact (w\<lparr>store_add := \<lambda>c r. Inr ()\<rparr>) name (Object [(''message'', JStr m)]))
         \<and> snd (interact w name (Object [(''message'', JStr m)]))
           = [StoreGet ''agents'' name,
              Logged Info (''Processing interaction with agent: '' @ name) [],
              ProviderCall (completion_request w name d m),
              Logged Info (''Agent interaction complete: '' @ name) [],
              StoreAdd ''analytics'' (analytics_of name m (agentReply r)) False,
              Logged Error (''Failed to record analytics: '' @ fault_message e) []]"
  using assms
  by (simp add: interact_def valid_message completion_request_def Let_def)

text \<open>The same in the example world whose analytics write throws.\<close>

theorem analytics_failure_isolated_example:
  "fst (interact analytics_down ''Aura'' (Object [(''message'', JStr ''hi'')]))
     = \<lparr>status = 200,
        body = JObj [(''agent'', JStr ''Aura''),
                     (''reply'', JStr ''I don't have live market data.''),
                     (''timestamp'', JStr ''2025-01-01T00:00:00.000Z'')]\<rparr>
   \<and> fst (interact analytics_down ''Aura'' (Object [(''message'', JStr ''hi'')]))
     = fst (interact example_world ''Aura'' (Object [(''message'', JStr ''hi'')]))
   \<and> logged (snd (interact analytics_down ''Aura'' (Object [(''message'', JStr ''hi'')])))
     = [(Info, ''Processing interaction with agent: Aura''),
        (Info, ''Agent interaction complete: Aura''),
        (Error, ''Failed to record analytics: UNAVAILABLE'')]"
proof -
  have nonempty: "1 \<le> length ''hi''" and bounded: "length ''hi'' \<le> 1000"
    by simp_all
  have found: "store_get analytics_down ''agents'' ''Aura'' = Inr (Some aura_details)"
    by (simp add: analytics_down_def example_world_def)
  have answered: "create analytics_down (completion_request analytics_down ''Aura'' aura_details ''hi'')
                    = Inr example_completion"
    by (simp add: analytics_down_def example_world_def)
  have refused: "store_add analytics_down ''analytics''
                   (analytics_of ''Aura'' ''hi'' (agentReply example_completion)) = Inl unavailable"
    by (simp add: analytics_down_def example_world_def)
  have same: "analytics_down\<lparr>store_add := \<lambda>c r. Inr ()\<rparr> = example_world"
    by (simp add: analytics_down_def example_world_def)
  have reply: "agentReply example_completion = ''I don't have live market data.''"
    by (simp add: agentReply_def example_completion_def)
  have clock: "now analytics_down = ''2025-01-01T00:00:00.000Z''"
    by (simp add: analytics_down_def example_world_def)
  note isolated = analytics_failure_isolated [of "''hi''" analytics_down "''Aura''" aura_details
      example_completion unavailable, OF nonempty bounded found answered refused]
  have "fst (interact analytics_down ''Aura'' (Object [(''message'', JStr ''hi'')]))
          = \<lparr>status = 200,
             body = JObj [(''agent'', JStr ''Aura''),
                          (''reply'', JStr ''I don't have live market data.''),
                          (''timestamp'', JStr ''2025-01-01T00:00:00.000Z'')]\<rparr>"
    using isolated [THEN conjunct1] by (simp add: reply clock)
  moreover
  have "fst (interact analytics_down ''Aura'' (Object [(''message'', JStr ''hi'')]))
          = fst (interact example_world ''Aura'' (Object [(''message'', JStr ''hi'')]))"
    using isolated [THEN conjunct2, THEN conjunct1] by (simp only: same)
  moreover
  have "logged (snd (interact analytics_down ''Aura'' (Object [(''message'', JStr ''hi'')])))
          = [(Info, ''Processing interaction with agent: Aura''),
             (Info, ''Agent interaction complete: Aura''),
             (Error, ''Failed to record analytics: UNAVAILABLE'')]"
    using isolated [THEN conjunct2, THEN conjunct2] by (simp add: logged_def unavailable_def)
  ultimately show ?thesis by blast
qed

subsection \<open>Rejection before any collaborator is reached\<close>




subsection \<open>The reply envelope\<close>

text \<open>
  C3. A body \<^verbatim>\<open>{message}\<close> whose message has 1 to 1000 characters, an agent that the
  store holds and a completion call that returns: the response is 200 with the body
  \<^verbatim>\<open>{agent, reply, timestamp}\<close>, where \<^verbatim>\<open>agent\<close> is the name of the path and \<^verbatim>\<open>reply\<close> is
  not empty: it is the content of the first choice when that is a non-empty string, and
  the fixed apology otherwise.
\<close>

theorem valid_interaction_replies:
  assumes "1 \<le> length m" and "length m \<le> 1000"
    and "store_get w ''agents'' name = Inr (Some d)"
    and "create w (completion_request w name d m) = Inr r"
  shows "\<exists>reply. fst (interact w name (Object [(''message'', JStr m)]))
                   = \<lparr>status = 200,
                      body = JObj [(''agent'', JStr name), (''reply'', JStr reply),
                                   (''timestamp'', JStr (now w))]\<rparr>
               \<and> reply \<noteq> []
               \<and> reply = (case choices r of
                            Choice (Some (CompletionMessage (Some (c # cs)))) # rest \<Rightarrow> c # cs
                          | _ \<Rightarrow> ''I'm sorry, I couldn't process your request at this time.'')"
proof (intro exI conjI)
  show "fst (interact w name (Object [(''message'', JStr m)]))
          = \<lparr>status = 200,
             body = JObj [(''agent'', JStr name), (''reply'', JStr (agentReply r)),
                          (''timestamp'', JStr (now w))]\<rparr>"
    using assms by (rule completed)
  show "agentReply r \<noteq> []"
    by (rule agentReply_nonempty)
  show "agentReply r = (case choices r of
                            Choice (Some (CompletionMessage (Some (c # cs)))) # rest \<Rightarrow> c # cs
                          | _ \<Rightarrow> ''I'm sorry, I couldn't process your request at this time.'')"
    by (auto simp: agentReply_def or_string_cases
             split: list.splits option.splits completion_message.splits choice.splits)
qed

text \<open>A provider that returns no choice: the reply is the apology.\<close>

theorem valid_interaction_replies_example:
  "\<exists>reply. fst (interact silent_provider ''Aura'' (Object [(''message'', JStr ''hi'')]))
             = \<lparr>status = 200,
                body = JObj [(''agent'', JStr ''Aura''), (''reply'', JStr reply),
                             (''timestamp'', JStr ''2025-01-01T00:00:00.000Z'')]\<rparr>
           \<and> reply \<noteq> []
           \<and> reply = ''I'm sorry, I couldn't process your request at this time.''"
proof -
  have nonempty: "1 \<le> length ''hi''" and bounded: "length ''hi'' \<le> 1000"
    by simp_all
  have found: "store_get silent_provider ''agents'' ''Aura'' = Inr (Some aura_details)"
    by (simp add: silent_provider_def example_world_def)
  have answered: "create silent_provider (completion_request silent_provider ''Aura'' aura_details ''hi'')
                    = Inr \<lparr>choices = []\<rparr>"
    by (simp add: silent_provider_def example_world_def)
  have clock: "now silent_provider = ''2025-01-01T00:00:00.000Z''"
    by (simp add: silent_provider_def example_world_def)
  from valid_interaction_replies [OF nonempty bounded found answered]
  show ?thesis by (simp add: clock)
qed

subsection \<open>A provider fault\<close>

text \<open>
  C4. A valid message, an agent that exists and a completion call that throws: the
  response is 500 with the fixed body \<^verbatim>\<open>{error: "Internal server error", message: "An
  unexpected error occurred during agent interaction"}\<close>, whatever the fault says, and
  the handler has not called the analytics add.
\<close>

theorem provider_failure_is_500:
  assumes "1 \<le> length m" and "length m \<le> 1000"
    and "store_get w ''agents'' name = Inr (Some d)"
    and "create w (completion_request w name d m) = Inl e"
  shows "fst (interact w name (Object [(''message'', JStr m)]))
           = \<lparr>status = 500,
              body = JObj [(''error'', JStr ''Internal server error''),
                           (''message'',
                            JStr ''An unexpected error occurred during agent interaction'')]\<rparr>
         \<and> store_adds (snd (interact w name (Object [(''message'', JStr m)]))) = []"
  using assms
  by (simp add: interact_def valid_message Let_def interaction_failed_def error_body_def
      store_adds_def)

text \<open>The example world whose provider throws.\<close>

theorem provider_failure_is_500_example:
  "fst (interact provider_down ''Aura'' (Object [(''message'', JStr ''hi'')]))
     = \<lparr>status = 500,
        body = JObj [(''error'', JStr ''Internal server error''),
                     (''message'',
                      JStr ''An unexpected error occurred during agent interaction'')]\<rparr>
   \<and> store_adds (snd (interact provider_down ''Aura'' (Object [(''message'', JStr ''hi'')]))) = []"
proof -
  have nonempty: "1 \<le> length ''hi''" and bounded: "length ''hi'' \<le> 1000"
    by simp_all
  have found: "store_get provider_down ''agents'' ''Aura'' = Inr (Some aura_details)"
    by (simp add: provider_down_def example_world_def)
  have thrown: "create provider_down (completion_request provider_down ''Aura'' aura_details ''hi'')
                  = Inl unavailable"
    by (simp add: provider_down_def example_world_def)
  show ?thesis
    by (rule provider_failure_is_500 [OF nonempty bounded found thrown])
qed

subsection \<open>The system prompt\<close>

text \<open>
  C5. The prompt is a function of the name and of the \<^verbatim>\<open>personality\<close> and
  \<^verbatim>\<open>description\<close> fields alone: two documents that agree on both give the same prompt.
  When \<^verbatim>\<open>personality\<close> is missing or the empty string, the prompt carries
  \<^verbatim>\<open>neutral and general.\<close> in its place; when \<^verbatim>\<open>description\<close> is missing, the prompt
  carries nothing in its place.
\<close>

theorem prompt_is_pure:
  "(map_of d ''personality'' = map_of d' ''personality''
      \<and> map_of d ''description'' = map_of d' ''description''
      \<longrightarrow> systemPrompt name d = systemPrompt name d')
   \<and> (map_of d ''personality'' = None \<or> map_of d ''personality'' = Some (JStr [])
      \<longrightarrow> systemPrompt name d =
            ''You are '' @ name
            @ '', a helpful AI agent with the following personality: neutral and general. ''
            @ or_text (map_of d ''description'') [] @ instructions)
   \<and> (map_of d ''description'' = None
      \<longrightarrow> systemPrompt name d =
            ''You are '' @ name @ '', a helpful AI agent with the following personality: ''
            @ or_text (map_of d ''personality'') ''neutral and general.'' @ '' '' @ instructions)"
  by (auto simp: systemPrompt_def)

text \<open>Two documents with neither field: one prompt, with the neutral persona.\<close>

theorem prompt_is_pure_example:
  "systemPrompt ''Aura'' [(''owner'', JStr ''alice'')] = systemPrompt ''Aura'' [(''supply'', JNum ''7'')]
   \<and> systemPrompt ''Aura'' [(''owner'', JStr ''alice'')] =
       ''You are Aura, a helpful AI agent with the following personality: neutral and general. ''
       @ instructions"
proof -
  have same: "map_of [(''owner'', JStr ''alice'')] ''personality''
                = map_of [(''supply'', JNum ''7'')] ''personality''
      \<and> map_of [(''owner'', JStr ''alice'')] ''description''
                = map_of [(''supply'', JNum ''7'')] ''description''"
    by simp
  have missing: "map_of [(''owner'', JStr ''alice'')] ''personality'' = None
      \<or> map_of [(''owner'', JStr ''alice'')] ''personality'' = Some (JStr [])"
    by simp
  note pure = prompt_is_pure [of "[(''owner'', JStr ''alice'')]" "[(''supply'', JNum ''7'')]" "''Aura''"]
  from pure [THEN conjunct1] same
  have "systemPrompt ''Aura'' [(''owner'', JStr ''alice'')]
          = systemPrompt ''Aura'' [(''supply'', JNum ''7'')]"
    by blast
  moreover
  from pure [THEN conjunct2, THEN conjunct1] missing
  have "systemPrompt ''Aura'' [(''owner'', JStr ''alice'')] =
       ''You are Aura, a helpful AI agent with the following personality: neutral and general. ''
       @ instructions"
    by simp
  ultimately show ?thesis by blast
qed

subsection \<open>An agent the store does not hold\<close>

text \<open>
  C6. When the store has no document under the name, the metadata route answers 404 with
  \<^verbatim>\<open>{error: "Agent not found", message: "The agent '<name>' does not exist in the
  database"}\<close>, and so does the interaction route for a valid body.
\<close>

theorem absent_agent_is_404:
  assumes "store_get w ''agents'' name = Inr None"
  shows "fst (get_agent w name)
           = \<lparr>status = 404,
              body = JObj [(''error'', JStr ''Agent not found''),
                           (''message'',
                            JStr (''The agent '' @ [CHR 0x27] @ name @ [CHR 0x27]
                                  @ '' does not exist in the database''))]\<rparr>
         \<and> (1 \<le> length m \<and> length m \<le> 1000 \<longrightarrow>
              fst (interact w name (Object [(''message'', JStr m)]))
                = \<lparr>status = 404,
                   body = JObj [(''error'', JStr ''Agent not found''),
                                (''message'',
                                 JStr (''The agent '' @ [CHR 0x27] @ name @ [CHR 0x27]
                                       @ '' does not exist in the database''))]\<rparr>)"
  using assms
  by (simp add: get_agent_def interact_def valid_message not_found_def error_body_def)

text \<open>The scenario of the name \<^verbatim>\<open>unknown-agent\<close> and the body \<^verbatim>\<open>{message: "hi"}\<close>.\<close>

theorem absent_agent_is_404_example:
  "fst (get_agent example_world ''unknown-agent'')
     = \<lparr>status = 404,
        body = JObj [(''error'', JStr ''Agent not found''),
                     (''message'',
                      JStr ''The agent 'unknown-agent' does not exist in the database'')]\<rparr>
   \<and> fst (interact example_world ''unknown-agent'' (Object [(''message'', JStr ''hi'')]))
     = \<lparr>status = 404,
        body = JObj [(''error'', JStr ''Agent not found''),
                     (''message'',
                      JStr ''The agent 'unknown-agent' does not exist in the database'')]\<rparr>"
proof -
  have absent: "store_get example_world ''agents'' ''unknown-agent'' = Inr None"
    by (simp add: example_world_def)
  from absent_agent_is_404 [OF absent, of "''hi''"]
  show ?thesis by simp
qed

subsection \<open>The parameters of the completion call\<close>

text \<open>
  C7, as the code has it. The model of the completion request is configuration: it is
  the environment variable \<^verbatim>\<open>OPENAI_MODEL\<close> when that is set and not empty, and
  \<^verbatim>\<open>gpt-3.5-turbo\<close> otherwise. The token limit and the temperature are not: in every
  world, for every agent and message, they are 500 and 0.7.
\<close>

theorem request_parameters:
  "model (completion_request w name d m)
     = (case env w ''OPENAI_MODEL'' of Some (c # cs) \<Rightarrow> c # cs | _ \<Rightarrow> ''gpt-3.5-turbo'')
   \<and> max_tokens (completion_request w name d m) = 500
   \<and> temperature (completion_request w name d m) = ''0.7''"
  by (simp add: completion_request_def or_string_cases)

text \<open>
  An environment that sets \<^verbatim>\<open>OPENAI_MODEL\<close>, \<^verbatim>\<open>OPENAI_MAX_TOKENS\<close> and
  \<^verbatim>\<open>OPENAI_TEMPERATURE\<close> changes the model of the request and leaves its token limit
  and temperature as they are under the empty environment.
\<close>

theorem token_limit_not_configurable:
  "model (completion_request tuned_world ''Aura'' aura_details ''hi'') = ''gpt-4o''
   \<and> model (completion_request example_world ''Aura'' aura_details ''hi'') = ''gpt-3.5-turbo''
   \<and> max_tokens (completion_request tuned_world ''Aura'' aura_details ''hi'')
     = max_tokens (completion_request example_world ''Aura'' aura_details ''hi'')
   \<and> temperature (completion_request tuned_world ''Aura'' aura_details ''hi'')
     = temperature (completion_request example_world ''Aura'' aura_details ''hi'')"
  by (simp add: completion_request_def tuned_world_def example_world_def)

subsection \<open>The Aura scenario\<close>




subsection \<open>Unknown keys\<close>




subsection \<open>The analytics record\<close>

text \<open>
  C10. After a successful interaction exactly one record has been written, to the
  \<^verbatim>\<open>analytics\<close> collection: its \<^verbatim>\<open>messageLength\<close> is the length of the validated message,
  its \<^verbatim>\<open>responseLength\<close> the length of the reply of the response body (the apology
  included), its \<^verbatim>\<open>agent\<close> the name of the path and its \<^verbatim>\<open>type\<close> is \<^verbatim>\<open>interaction\<close>.
\<close>

theorem analytics_record_matches:
  assumes "1 \<le> length m" and "length m \<le> 1000"
    and "store_get w ''agents'' name = Inr (Some d)"
    and "create w (completion_request w name d m) = Inr r"
    and "store_add w ''analytics'' (analytics_of name m (agentReply r)) = Inr u"
  shows "\<exists>reply written.
           body (fst (interact w name (Object [(''message'', JStr m)])))
             = JObj [(''agent'', JStr name), (''reply'', JStr reply),
                     (''timestamp'', JStr (now w))]
         \<and> records_written (snd (interact w name (Object [(''message'', JStr m)])))
             = [(''analytics'', written)]
         \<and> messageLength written = length m
         \<and> responseLength written = length reply
         \<and> agent written = name
         \<and> type written = ''interaction''"
  using assms
  by (simp add: interact_def valid_message Let_def records_written_def analytics_of_def)

text \<open>A provider that returns no choice: the record counts the 56 characters of the apology.\<close>

theorem analytics_record_matches_example:
  "\<exists>written.
     body (fst (interact silent_provider ''Aura'' (Object [(''message'', JStr ''hi'')])))
       = JObj [(''agent'', JStr ''Aura''),
               (''reply'', JStr ''I'm sorry, I couldn't process your request at this time.''),
               (''timestamp'', JStr ''2025-01-01T00:00:00.000Z'')]
     \<and> records_written (snd (interact silent_provider ''Aura'' (Object [(''message'', JStr ''hi'')])))
       = [(''analytics'', written)]
     \<and> messageLength written = 2
     \<and> responseLength written = 56
     \<and> agent written = ''Aura''
     \<and> type written = ''interaction''"
proof -
  have nonempty: "1 \<le> length ''hi''" and bounded: "length ''hi'' \<le> 1000"
    by simp_all
  have found: "store_get silent_provider ''agents'' ''Aura'' = Inr (Some aura_details)"
    by (simp add: silent_provider_def example_world_def)
  have answered: "create silent_provider (completion_request silent_provider ''Aura'' aura_details ''hi'')
                    = Inr \<lparr>choices = []\<rparr>"
    by (simp add: silent_provider_def example_world_def)
  have stored: "store_add silent_provider ''analytics''
                  (analytics_of ''Aura'' ''hi'' (agentReply \<lparr>choices = []\<rparr>)) = Inr ()"
    by (simp add: silent_provider_def example_world_def)
  have clock: "now silent_provider = ''2025-01-01T00:00:00.000Z''"
    by (simp add: silent_provider_def example_world_def)
  from analytics_record_matches [OF nonempty bounded found answered stored]
  obtain reply written where
    "body (fst (interact silent_provider ''Aura'' (Object [(''message'', JStr ''hi'')])))
       = JObj [(''agent'', JStr ''Aura''), (''reply'', JStr reply),
               (''timestamp'', JStr (now silent_provider))]"
    and "records_written (snd (interact silent_provider ''Aura'' (Object [(''message'', JStr ''hi'')])))
       = [(''analytics'', written)]"
    and "messageLength written = length ''hi''"
    and "responseLength written = length reply"
    and "agent written = ''Aura''"
    and "type written = ''interaction''"
    by blast
  moreover
  have "body (fst (interact silent_provider ''Aura'' (Object [(''message'', JStr ''hi'')])))
       = JObj [(''agent'', JStr ''Aura''),
               (''reply'', JStr ''I'm sorry, I couldn't process your request at this time.''),
               (''timestamp'', JStr ''2025-01-01T00:00:00.000Z'')]"
    using completed [OF nonempty bounded found answered]
    by (simp add: clock no_choice_reply)
  ultimately show ?thesis
    by (intro exI [of _ written]) (auto simp: clock)
qed

end
